theory Spec2Isabelle
  imports Complex_Main "HOL-Library.Word"
begin

section \<open>Values, errors and the library interface\<close>

text \<open>
  The device simulator of \<^verbatim>\<open>src/server.js\<close> is embedded here: its registry of cipher
  profiles, key derivation, the encryptor, the bounded history, the freshness evaluator,
  the periodic update and the request handlers for LED, fan, settings and encrypted export.

  A JavaScript value as it reaches a handler (a field of the parsed JSON body) or as it is
  put into a broadcast payload or a response. A number is a finite double, held as the
  rational it is equal to (for a field of the body, the value after \<^verbatim>\<open>JSON.parse\<close>); a
  \<open>JDate\<close> is a Date object, held as milliseconds since the epoch.
  \<open>JUndefined\<close> is what destructuring yields for a field the body does not have.
\<close>

datatype jsval =
    JUndefined
  | JNull
  | JBool bool
  | JNum rat
  | JStr string
  | JDate int
  | JArr "jsval list"
  | JObj "(string \<times> jsval) list"

type_synonym byte = "8 word"

text \<open>A thrown JavaScript exception; \<open>message\<close> is its \<^verbatim>\<open>err.message\<close>.\<close>

datatype js_error = Error string | TypeError string

fun message :: "js_error \<Rightarrow> string" where
  "message (Error m) = m"
| "message (TypeError m) = m"

text \<open>
  The functions of Node's and JavaScript's libraries that the source calls and that are
  not part of the repository. They are parameters of the model:
  \<^item> \<open>sha256 s\<close>: \<^verbatim>\<open>crypto.createHash('sha256').update(s, 'utf8').digest()\<close>;
  \<^item> \<open>randomBytes n\<close>: the bytes \<^verbatim>\<open>crypto.randomBytes(n)\<close> returns in the call at hand;
  \<^item> \<open>cipheriv c key iv text\<close>: \<^verbatim>\<open>createCipheriv(c, key, iv)\<close> followed by
    \<^verbatim>\<open>update(text, 'utf8')\<close> and \<^verbatim>\<open>final()\<close>, concatenated; \<open>Inl\<close> when the library throws;
  \<^item> \<open>stringify\<close>: \<^verbatim>\<open>JSON.stringify\<close>; \<open>base64\<close>: \<^verbatim>\<open>buf.toString('base64')\<close>;
  \<^item> \<open>toISOString\<close>: \<^verbatim>\<open>Date.prototype.toISOString\<close> on a time in milliseconds;
  \<^item> \<open>new_URL path base\<close>: \<^verbatim>\<open>new URL(path, base)\<close>, which throws on a base that is not a
    URL; the result stands for the parsed target;
  \<^item> \<open>toUpperCase\<close>: \<^verbatim>\<open>String.prototype.toUpperCase\<close>, which follows the case tables of
    Unicode.
\<close>

record platform =
  sha256 :: "string \<Rightarrow> byte list"
  randomBytes :: "nat \<Rightarrow> byte list"
  cipheriv :: "string \<Rightarrow> byte list \<Rightarrow> byte list \<Rightarrow> string \<Rightarrow> js_error + byte list"
  stringify :: "jsval \<Rightarrow> string"
  base64 :: "byte list \<Rightarrow> string"
  toISOString :: "int \<Rightarrow> string"
  new_URL :: "string \<Rightarrow> string \<Rightarrow> js_error + string"
  toUpperCase :: "string \<Rightarrow> string"

section \<open>Cipher registry and key derivation\<close>

record algorithm =
  cipher :: string
  keyLen :: nat
  ivLen :: nat

text \<open>
  \<^verbatim>\<open>ALGORITHMS[name]\<close> is a property read on an object literal, so besides the two own
  properties it finds the members that every object inherits from \<^verbatim>\<open>Object.prototype\<close>.
  Such a member is truthy and has none of \<^verbatim>\<open>cipher\<close>, \<^verbatim>\<open>keyLen\<close>, \<^verbatim>\<open>ivLen\<close>.
  \<open>None\<close> is \<^verbatim>\<open>undefined\<close>.
\<close>

datatype member = Profile algorithm | Inherited

definition object_prototype_keys :: "string list" where
  "object_prototype_keys =
     [''constructor'', ''hasOwnProperty'', ''isPrototypeOf'', ''propertyIsEnumerable'',
      ''toLocaleString'', ''toString'', ''valueOf'', ''__proto__'',
      ''__defineGetter__'', ''__defineSetter__'', ''__lookupGetter__'', ''__lookupSetter__'']"

definition ALGORITHMS :: "string \<Rightarrow> member option" where
  "ALGORITHMS name =
     (if name = ''AES'' then Some (Profile \<lparr>cipher = ''aes-256-cbc'', keyLen = 32, ivLen = 16\<rparr>)
      else if name = ''DES'' then Some (Profile \<lparr>cipher = ''des-ede3-cbc'', keyLen = 24, ivLen = 8\<rparr>)
      else if name \<in> set object_prototype_keys then Some Inherited
      else None)"

text \<open>
  \<^verbatim>\<open>deriveKey(secret, keyLen)\<close>: the SHA-256 digest of the secret, cut to its first
  \<open>keyLen\<close> bytes. The secret of the source is always a string (an environment variable
  or the literal default), so \<^verbatim>\<open>String(secret)\<close> is the secret itself.
\<close>

definition deriveKey :: "platform \<Rightarrow> string \<Rightarrow> nat \<Rightarrow> byte list" where
  "deriveKey lib secret n = take n (sha256 lib secret)"

section \<open>Encryptor\<close>

record envelope =
  algo :: string
  iv :: string
  data :: string

text \<open>
  \<^verbatim>\<open>encryptJSON(data, algoName, secret)\<close>. An unknown name throws
  \<^verbatim>\<open>Unsupported algorithm: <name>\<close>. A name that finds an inherited member passes the
  test \<^verbatim>\<open>!algo\<close>; its \<^verbatim>\<open>keyLen\<close> and \<^verbatim>\<open>ivLen\<close> are undefined, the key is the
  whole digest, and \<^verbatim>\<open>crypto.randomBytes(undefined)\<close> throws a TypeError.
\<close>

definition encryptJSON :: "platform \<Rightarrow> jsval \<Rightarrow> string \<Rightarrow> string \<Rightarrow> js_error + envelope" where
  "encryptJSON lib record_data algoName secret =
     (case ALGORITHMS algoName of
        None \<Rightarrow> Inl (Error (''Unsupported algorithm: '' @ algoName))
      | Some Inherited \<Rightarrow>
          Inl (TypeError (''The '' @ [CHR 0x22] @ ''size'' @ [CHR 0x22] @
                 '' argument must be of type number. Received undefined''))
      | Some (Profile a) \<Rightarrow>
          (let key = deriveKey lib secret (keyLen a);
               iv_bytes = randomBytes lib (ivLen a);
               json = stringify lib record_data
           in case cipheriv lib (cipher a) key iv_bytes json of
                Inl e \<Rightarrow> Inl e
              | Inr encrypted \<Rightarrow>
                  Inr \<lparr>algo = algoName, iv = base64 lib iv_bytes, data = base64 lib encrypted\<rparr>))"

section \<open>Configuration, device state and the process state\<close>

text \<open>
  What the source reads from \<^verbatim>\<open>process.env\<close>, apart from the bounds of the simulated
  readings. A numeric variable is held as the integer that \<^verbatim>\<open>parseInt\<close> returns for it,
  \<open>None\<close> for \<^verbatim>\<open>NaN\<close> (which is also the result for a variable that is not set).
  \<open>SEND_TO_MAIN_SERVER\<close> is the outcome of the comparison with \<^verbatim>\<open>'true'\<close>.
\<close>

record config =
  DATA_SECRET :: string
  TEMP_INTERVAL :: "int option"
  DATA_HEALTH_MAX_AGE_MS :: "int option"
  SEND_TO_MAIN_SERVER :: bool
  MAIN_SERVER_URL :: "string option"
  PORT :: "string option"

text \<open>\<^verbatim>\<open>x || d\<close> on a number: \<^verbatim>\<open>NaN\<close> and \<^verbatim>\<open>0\<close> are falsy.\<close>

definition or_default :: "'a::zero option \<Rightarrow> 'a \<Rightarrow> 'a" where
  "or_default x d = (case x of None \<Rightarrow> d | Some v \<Rightarrow> if v = 0 then d else v)"

text \<open>The health verdict that \<^verbatim>\<open>getDataHealth\<close> returns.\<close>

datatype health_status = OK | STALE | UNKNOWN

record health =
  status :: health_status
  ageMs :: "int option"
  isFresh :: bool
  lastUpdate :: "int option"

record device_state =
  led :: bool
  fan :: bool
  allowFanControl :: bool
  temperature :: rat
  humidity :: rat
  lastUpdate :: "int option"

text \<open>
  The mutable globals of the module, together with what the process has sent out:
  \<open>emitted\<close> are the \<^verbatim>\<open>io.emit\<close> broadcasts, \<open>console_error\<close> the lines written by
  \<^verbatim>\<open>console.error\<close>, \<open>forwarded\<close> the requests handed to \<^verbatim>\<open>http.request\<close>
  (target and body), each oldest first. The informational \<^verbatim>\<open>console.log\<close> output is
  not modelled.
\<close>

record world =
  deviceState :: device_state
  currentEncAlgo :: string
  sensorHistory :: "envelope list"
  emitted :: "(string \<times> jsval) list"
  console_error :: "string list"
  forwarded :: "(string \<times> string) list"

definition DEFAULT_ENC_ALGO :: "string option \<Rightarrow> string" where
  "DEFAULT_ENC_ALGO env_ENC_ALGO = (if env_ENC_ALGO = Some ''DES'' then ''DES'' else ''AES'')"

text \<open>The state the module starts with; \<open>t0\<close> is the time of loading.\<close>

definition initial_world :: "string option \<Rightarrow> int \<Rightarrow> world" where
  "initial_world env_ENC_ALGO t0 =
     \<lparr>deviceState = \<lparr>led = False, fan = False, allowFanControl = True,
                      temperature = 25, humidity = 60, lastUpdate = Some t0\<rparr>,
      currentEncAlgo = DEFAULT_ENC_ALGO env_ENC_ALGO,
      sensorHistory = [],
      emitted = [],
      console_error = [],
      forwarded = []\<rparr>"

section \<open>Simulated readings and the update period\<close>

text \<open>
  \<^verbatim>\<open>generateRandomTemperature()\<close> and \<^verbatim>\<open>generateRandomHumidity()\<close> compute
  \<^verbatim>\<open>Math.floor(Math.random() * (max - min + 1)) + min\<close> in floating point, from a random
  number and bounds read with \<^verbatim>\<open>parseFloat\<close>. That arithmetic is not modelled: the two
  readings of a tick, as these functions return them, are inputs of the tick.

  \<^verbatim>\<open>tempInterval\<close> is the period handed to \<^verbatim>\<open>setInterval\<close>:
  \<^verbatim>\<open>parseInt(process.env.TEMP_INTERVAL) || 5000\<close>.
\<close>

definition tempInterval :: "config \<Rightarrow> int" where
  "tempInterval cfg = or_default (TEMP_INTERVAL cfg) 5000"

section \<open>Freshness evaluator\<close>

text \<open>
  \<^verbatim>\<open>getDataHealth()\<close>; \<open>now\<close> is the value of \<^verbatim>\<open>Date.now()\<close>. A missing
  \<^verbatim>\<open>lastUpdate\<close> is \<open>None\<close>.
\<close>

definition maxAge :: "config \<Rightarrow> int" where
  "maxAge cfg = or_default (DATA_HEALTH_MAX_AGE_MS cfg) (tempInterval cfg * 2)"

definition getDataHealth :: "config \<Rightarrow> int \<Rightarrow> device_state \<Rightarrow> health" where
  "getDataHealth cfg now d =
     (case device_state.lastUpdate d of
        None \<Rightarrow> \<lparr>status = UNKNOWN, ageMs = None, isFresh = False, health.lastUpdate = None\<rparr>
      | Some t \<Rightarrow>
          (let age = now - t;
               fresh = (age \<le> maxAge cfg)
           in \<lparr>status = (if fresh then OK else STALE), ageMs = Some age, isFresh = fresh,
               health.lastUpdate = device_state.lastUpdate d\<rparr>))"

text \<open>Values as they appear in broadcast payloads and responses.\<close>

definition date_json :: "int option \<Rightarrow> jsval" where
  "date_json t = (case t of None \<Rightarrow> JNull | Some ms \<Rightarrow> JDate ms)"

definition status_name :: "health_status \<Rightarrow> string" where
  "status_name s = (case s of OK \<Rightarrow> ''OK'' | STALE \<Rightarrow> ''STALE'' | UNKNOWN \<Rightarrow> ''UNKNOWN'')"

definition health_json :: "health \<Rightarrow> jsval" where
  "health_json h =
     JObj [(''status'', JStr (status_name (status h))),
           (''ageMs'', (case ageMs h of None \<Rightarrow> JNull | Some a \<Rightarrow> JNum (of_int a))),
           (''isFresh'', JBool (isFresh h)),
           (''lastUpdate'', date_json (health.lastUpdate h))]"

section \<open>Bounded history\<close>

text \<open>
  \<^verbatim>\<open>sensorHistory.push(payload); if (sensorHistory.length > 500) sensorHistory.shift();\<close>
\<close>

definition sensorHistory_push :: "envelope list \<Rightarrow> envelope \<Rightarrow> envelope list" where
  "sensorHistory_push h payload =
     (let h' = h @ [payload] in if length h' > 500 then tl h' else h')"

section \<open>Update cycle\<close>

text \<open>
  \<^verbatim>\<open>sendToMainServer()\<close>. The result's first component is the exception that leaves the
  function, if any: \<^verbatim>\<open>new URL\<close> is called outside any \<^verbatim>\<open>try\<close>. Errors and timeouts of
  the request itself arrive later, in callbacks that discard them.
\<close>

definition sendToMainServer :: "platform \<Rightarrow> config \<Rightarrow> world \<Rightarrow> js_error option \<times> world" where
  "sendToMainServer lib cfg w =
     (case MAIN_SERVER_URL cfg of
        None \<Rightarrow> (None, w)
      | Some mainServerUrl \<Rightarrow>
          if \<not> SEND_TO_MAIN_SERVER cfg \<or> mainServerUrl = [] then (None, w)
          else
            (let d = deviceState w;
                 port = (case PORT cfg of None \<Rightarrow> ''4001''
                         | Some p \<Rightarrow> if p = [] then ''4001'' else p);
                 postData = stringify lib
                   (JObj [(''ip'', JStr (''localhost:'' @ port)),
                          (''temperature'', JNum (temperature d)),
                          (''humidity'', JNum (humidity d)),
                          (''timestamp'', date_json (device_state.lastUpdate d))])
             in case new_URL lib ''/api/sensor-data'' mainServerUrl of
                  Inl e \<Rightarrow> (Some e, w)
                | Inr url \<Rightarrow> (None, w\<lparr>forwarded := forwarded w @ [(url, postData)]\<rparr>)))"

text \<open>
  \<^verbatim>\<open>updateSensorData()\<close>, one tick. \<open>temp\<close> and \<open>hum\<close> are the two readings that
  the generators return, \<open>now\<close> the time of \<^verbatim>\<open>new Date()\<close> and \<open>now_health\<close> the later
  reading of \<^verbatim>\<open>Date.now()\<close> inside \<^verbatim>\<open>getDataHealth\<close>. The first component of the
  result is the exception that leaves the tick, if any.
\<close>

text \<open>The record that a tick encrypts for the history; \<open>now\<close> is the \<^verbatim>\<open>lastUpdate\<close> just set.\<close>

definition history_record :: "platform \<Rightarrow> int \<Rightarrow> device_state \<Rightarrow> jsval" where
  "history_record lib now d =
     JObj [(''timestamp'', JStr (toISOString lib now)),
           (''temperature'', JNum (temperature d)),
           (''humidity'', JNum (humidity d))]"

definition updateSensorData ::
  "platform \<Rightarrow> config \<Rightarrow> rat \<Rightarrow> rat \<Rightarrow> int \<Rightarrow> int \<Rightarrow> world \<Rightarrow> js_error option \<times> world" where
  "updateSensorData lib cfg temp hum now now_health w =
     (let d = (deviceState w)\<lparr>temperature := temp,
                              humidity := hum,
                              lastUpdate := Some now\<rparr>;
          w1 = w\<lparr>deviceState := d\<rparr>;
          w2 = (case encryptJSON lib (history_record lib now d) (currentEncAlgo w1)
                       (DATA_SECRET cfg) of
                  Inr payload \<Rightarrow>
                    w1\<lparr>sensorHistory := sensorHistory_push (sensorHistory w1) payload\<rparr>
                | Inl err \<Rightarrow>
                    w1\<lparr>console_error := console_error w1 @
                         [''[ESP32 Simulator] Encrypt history error: '' @ message err]\<rparr>);
          w3 = w2\<lparr>emitted := emitted w2 @
                  [(''temperatureUpdated'',
                    JObj [(''temperature'', JNum (temperature d)),
                          (''humidity'', JNum (humidity d)),
                          (''timestamp'', JDate now)])]\<rparr>;
          h = getDataHealth cfg now_health (deviceState w3);
          w4 = w3\<lparr>emitted := emitted w3 @ [(''dataHealthUpdated'', health_json h)]\<rparr>
      in sendToMainServer lib cfg w4)"

text \<open>
  The periodic schedule: \<^verbatim>\<open>setInterval(updateSensorData, tempInterval)\<close> and the first
  call at start. Each tick has its own library state (the random bytes differ) and its own
  clock readings. An exception that leaves a timer callback ends the process, so the
  ticks after it do not run.
\<close>

record tick =
  tick_lib :: platform
  tick_temperature :: rat
  tick_humidity :: rat
  tick_now :: int
  tick_now_health :: int

fun run_ticks :: "config \<Rightarrow> tick list \<Rightarrow> world \<Rightarrow> js_error option \<times> world" where
  "run_ticks cfg [] w = (None, w)"
| "run_ticks cfg (t # ts) w =
     (case updateSensorData (tick_lib t) cfg (tick_temperature t) (tick_humidity t)
             (tick_now t) (tick_now_health t) w of
        (Some e, w') \<Rightarrow> (Some e, w')
      | (None, w') \<Rightarrow> run_ticks cfg ts w')"

section \<open>Request handlers\<close>

text \<open>
  A handler's outcome: the JSON response with its status code, or an exception that
  leaves the handler and is answered by the framework.
\<close>

datatype response = Json nat jsval | Uncaught js_error

text \<open>
  \<^verbatim>\<open>POST /led\<close>; \<open>state_req\<close> is \<^verbatim>\<open>req.body.state\<close>, \<open>now\<close> the time of
  \<^verbatim>\<open>new Date()\<close>. A strict comparison \<^verbatim>\<open>===\<close> with a string, a number or a boolean
  holds for the equal primitive value only.
\<close>

definition post_led :: "int \<Rightarrow> jsval \<Rightarrow> world \<Rightarrow> response \<times> world" where
  "post_led now state_req w =
     (let d = deviceState w;
          d1 = (if state_req = JStr ''ON'' \<or> state_req = JNum 1 \<or> state_req = JBool True
                then d\<lparr>led := True\<rparr>
                else if state_req = JStr ''OFF'' \<or> state_req = JNum 0 \<or> state_req = JBool False
                then d\<lparr>led := False\<rparr>
                else d);
          d2 = d1\<lparr>lastUpdate := Some now\<rparr>;
          w' = w\<lparr>deviceState := d2,
                 emitted := emitted w @
                   [(''ledStateChanged'',
                     JObj [(''led'', JBool (led d2)), (''timestamp'', JDate now)])]\<rparr>
      in (Json 200 (JObj [(''success'', JBool True),
                          (''led'', JBool (led d2)),
                          (''message'', JStr (''LED '' @ (if led d2 then ''ON'' else ''OFF'')))]),
          w'))"

text \<open>\<^verbatim>\<open>POST /fan\<close>.\<close>

definition post_fan :: "int \<Rightarrow> jsval \<Rightarrow> world \<Rightarrow> response \<times> world" where
  "post_fan now state_req w =
     (let d = deviceState w in
      if \<not> allowFanControl d
      then (Json 403 (JObj [(''success'', JBool False),
                            (''message'', JStr ''Fan control is disabled'')]), w)
      else
        (case (if state_req = JStr ''ON'' \<or> state_req = JNum 1 \<or> state_req = JBool True
               then Some (d\<lparr>fan := True\<rparr>)
               else if state_req = JStr ''OFF'' \<or> state_req = JNum 0 \<or> state_req = JBool False
               then Some (d\<lparr>fan := False\<rparr>)
               else None) of
           None \<Rightarrow> (Json 400 (JObj [(''success'', JBool False),
                                     (''message'', JStr ''Invalid fan state'')]), w)
         | Some d1 \<Rightarrow>
             (let d2 = d1\<lparr>lastUpdate := Some now\<rparr>;
                  w' = w\<lparr>deviceState := d2,
                         emitted := emitted w @
                           [(''fanStateChanged'',
                             JObj [(''fan'', JBool (fan d2)), (''timestamp'', JDate now)])]\<rparr>
              in (Json 200 (JObj [(''success'', JBool True),
                                  (''fan'', JBool (fan d2)),
                                  (''message'',
                                   JStr (''FAN '' @ (if fan d2 then ''ON'' else ''OFF'')))]),
                  w'))))"

text \<open>
  \<^verbatim>\<open>GET /sensor_encrypted\<close> and \<^verbatim>\<open>GET /humidity_encrypted\<close>; \<open>query_algo\<close> is
  \<^verbatim>\<open>req.query.algo\<close> when it is a string, \<open>None\<close> when the query has no such
  parameter. The empty string is falsy. The name is looked up as it was sent. The two
  handlers have the choice of the name and the \<^verbatim>\<open>try\<close> block word for word in common,
  up to the route in the logged line; these are \<open>requested_algoName\<close> and
  \<open>encrypted_reply\<close>.
\<close>

definition requested_algoName :: "string option \<Rightarrow> world \<Rightarrow> string" where
  "requested_algoName query_algo w =
     (case query_algo of
        None \<Rightarrow> currentEncAlgo w
      | Some q \<Rightarrow> if q \<noteq> [] \<and> ALGORITHMS q \<noteq> None then q else currentEncAlgo w)"

definition encrypted_reply ::
  "platform \<Rightarrow> config \<Rightarrow> string \<Rightarrow> jsval \<Rightarrow> string \<Rightarrow> world \<Rightarrow> response \<times> world" where
  "encrypted_reply lib cfg route record_data algoName w =
     (case encryptJSON lib record_data algoName (DATA_SECRET cfg) of
        Inr payload \<Rightarrow>
          (Json 200 (JObj [(''encrypted'', JBool True),
                           (''algo'', JStr (algo payload)),
                           (''iv'', JStr (iv payload)),
                           (''data'', JStr (data payload))]), w)
      | Inl err \<Rightarrow>
          (Json 500 (JObj [(''encrypted'', JBool False),
                           (''error'', JStr ''encryption error'')]),
           w\<lparr>console_error := console_error w @
                [''[ESP32 Simulator] '' @ route @ '' error: '' @ message err]\<rparr>))"

definition get_sensor_encrypted ::
  "platform \<Rightarrow> config \<Rightarrow> string option \<Rightarrow> world \<Rightarrow> response \<times> world" where
  "get_sensor_encrypted lib cfg query_algo w =
     (let algoName = requested_algoName query_algo w; d = deviceState w in
      case device_state.lastUpdate d of
        None \<Rightarrow> (Uncaught (TypeError ''Cannot read properties of null''), w)
      | Some t \<Rightarrow>
          encrypted_reply lib cfg ''/sensor_encrypted''
            (JObj [(''timestamp'', JStr (toISOString lib t)),
                   (''temperature'', JNum (temperature d)),
                   (''humidity'', JNum (humidity d))])
            algoName w)"

definition get_humidity_encrypted ::
  "platform \<Rightarrow> config \<Rightarrow> string option \<Rightarrow> world \<Rightarrow> response \<times> world" where
  "get_humidity_encrypted lib cfg query_algo w =
     (let algoName = requested_algoName query_algo w; d = deviceState w in
      case device_state.lastUpdate d of
        None \<Rightarrow> (Uncaught (TypeError ''Cannot read properties of null''), w)
      | Some t \<Rightarrow>
          encrypted_reply lib cfg ''/humidity_encrypted''
            (JObj [(''timestamp'', JStr (toISOString lib t)),
                   (''humidity'', JNum (humidity d))])
            algoName w)"

text \<open>
  \<^verbatim>\<open>POST /settings\<close>; the two arguments are \<^verbatim>\<open>req.body.allowFanControl\<close> and
  \<^verbatim>\<open>req.body.algo\<close>, \<open>now\<close> is the value of \<^verbatim>\<open>Date.now()\<close> in \<^verbatim>\<open>getDataHealth\<close>.
\<close>

definition post_settings :: "platform \<Rightarrow> config \<Rightarrow> int \<Rightarrow> jsval \<Rightarrow> jsval \<Rightarrow> world \<Rightarrow> response \<times> world" where
  "post_settings lib cfg now allowFanControl_req algo_req w =
     (let w1 = (if allowFanControl_req \<noteq> JUndefined
                then w\<lparr>deviceState := (deviceState w)
                        \<lparr>allowFanControl :=
                           (allowFanControl_req = JBool True \<or>
                            allowFanControl_req = JStr ''true'' \<or>
                            allowFanControl_req = JNum 1 \<or>
                            allowFanControl_req = JStr ''1'')\<rparr>\<rparr>
                else w);
          checked = (case algo_req of
                       JStr s \<Rightarrow>
                         (let upper = toUpperCase lib s in
                          if ALGORITHMS upper \<noteq> None
                          then Some (w1\<lparr>currentEncAlgo := upper\<rparr>)
                          else None)
                     | _ \<Rightarrow> Some w1)
      in case checked of
           None \<Rightarrow>
             (Json 400 (JObj [(''success'', JBool False),
                              (''message'',
                               JStr ''Invalid encryption algorithm. Use AES or DES.'')]),
              w1)
         | Some w2 \<Rightarrow>
             (let h = getDataHealth cfg now (deviceState w2);
                  w3 = w2\<lparr>emitted := emitted w2 @
                          [(''settingsUpdated'',
                            JObj [(''allowFanControl'', JBool (allowFanControl (deviceState w2))),
                                  (''encAlgo'', JStr (currentEncAlgo w2))])]\<rparr>
              in (Json 200 (JObj [(''success'', JBool True),
                                  (''allowFanControl'',
                                   JBool (allowFanControl (deviceState w3))),
                                  (''encAlgo'', JStr (currentEncAlgo w3)),
                                  (''dataHealth'', health_json h)]),
                  w3)))"

text \<open>Reading a response: its status code and a field of its JSON body.\<close>

definition status_code :: "response \<Rightarrow> nat option" where
  "status_code r = (case r of Json c b \<Rightarrow> Some c | Uncaught e \<Rightarrow> None)"

definition body_field :: "response \<Rightarrow> string \<Rightarrow> jsval" where
  "body_field r k =
     (case r of
        Json c (JObj kvs) \<Rightarrow> (case map_of kvs k of Some v \<Rightarrow> v | None \<Rightarrow> JUndefined)
      | _ \<Rightarrow> JUndefined)"

section \<open>Decryption\<close>



section \<open>Concrete instances\<close>

text \<open>
  Small instances of the library interface, of the configuration and of the state, on
  which the model runs: \<open>demo_lib\<close> answers every call, \<open>failing_lib\<close> is the same
  library with a cipher that throws, and \<open>bad_url_lib\<close> the latter with a \<^verbatim>\<open>new URL\<close>
  that throws as well; \<open>demo_cfg\<close> is the configuration of a process with no environment
  variable set, \<open>forwarding_cfg\<close> has forwarding switched on towards a target that is not
  a URL, \<open>forwarding_ok_cfg\<close> towards one that is; \<open>demo_world\<close> is the state at start,
  \<open>demo_tick lib t\<close> a tick at time \<open>t\<close> with the readings 21 and 50.
\<close>

text \<open>
  Upper-casing for \<open>demo_lib\<close>, on strings of ASCII characters: a letter from \<open>a\<close> to
  \<open>z\<close> (codes 97 to 122) loses the bit of value 32, every other character is kept.
\<close>

definition upper_char :: "char \<Rightarrow> char" where
  "upper_char c =
     (if (97::nat) \<le> of_char c \<and> of_char c \<le> (122::nat)
      then Char (digit0 c) (digit1 c) (digit2 c) (digit3 c) (digit4 c) False (digit6 c) (digit7 c)
      else c)"

definition ascii_upper :: "string \<Rightarrow> string" where
  "ascii_upper s = map upper_char s"

definition demo_lib :: platform where
  "demo_lib =
     \<lparr>sha256 = (\<lambda>s. take 32 (map (\<lambda>c. of_nat (of_char c)) s @ replicate 32 0)),
      randomBytes = (\<lambda>n. replicate n 65),
      cipheriv = (\<lambda>c key iv_bytes text. Inr (rev (map (\<lambda>c. of_nat (of_char c)) text))),
      stringify = (\<lambda>v. case v of JStr s \<Rightarrow> s | _ \<Rightarrow> ''{}''),
      base64 = map (\<lambda>b. char_of (unat b)),
      toISOString = (\<lambda>t. ''1970-01-01T00:00:00.000Z''),
      new_URL = (\<lambda>path base. Inr (base @ path)),
      toUpperCase = ascii_upper\<rparr>"




definition demo_cfg :: config where
  "demo_cfg =
     \<lparr>DATA_SECRET = ''165743'', TEMP_INTERVAL = None, DATA_HEALTH_MAX_AGE_MS = None,
      SEND_TO_MAIN_SERVER = False, MAIN_SERVER_URL = None, PORT = None\<rparr>"



definition demo_world :: world where
  "demo_world = initial_world None 0"


definition demo_envelope :: "nat \<Rightarrow> envelope" where
  "demo_envelope i = \<lparr>algo = ''AES'', iv = replicate i CHR ''A'', data = []\<rparr>"

text \<open>The lower-case letters of ASCII, which \<open>upper_char\<close> replaces.\<close>

definition is_lower :: "char \<Rightarrow> bool" where
  "is_lower c \<longleftrightarrow> (97::nat) \<le> of_char c \<and> of_char c \<le> (122::nat)"

section \<open>Properties\<close>

subsection \<open>Evaluation on the concrete instances\<close>

lemma toUpperCase_XYZ: "toUpperCase demo_lib ''XYZ'' = ''XYZ''"
  by (simp add: demo_lib_def ascii_upper_def upper_char_def)

lemma ALGORITHMS_XYZ: "ALGORITHMS ''XYZ'' = None"
  by (simp add: ALGORITHMS_def object_prototype_keys_def)

lemma ALGORITHMS_AES:
  "ALGORITHMS ''AES'' = Some (Profile \<lparr>cipher = ''aes-256-cbc'', keyLen = 32, ivLen = 16\<rparr>)"
  by (simp add: ALGORITHMS_def)

lemma demo_world_simps:
  "currentEncAlgo demo_world = ''AES''"
  "device_state.lastUpdate (deviceState demo_world) = Some 0"
  "temperature (deviceState demo_world) = 25"
  "humidity (deviceState demo_world) = 60"
  "sensorHistory demo_world = []"
  "emitted demo_world = []"
  "console_error demo_world = []"
  by (simp_all add: demo_world_def initial_world_def DEFAULT_ENC_ALGO_def)

lemma encryptJSON_demo_AES:
  "encryptJSON demo_lib v ''AES'' secret =
     Inr \<lparr>algo = ''AES'', iv = base64 demo_lib (replicate 16 65),
          data = base64 demo_lib (rev (map (\<lambda>c. of_nat (of_char c)) (stringify demo_lib v)))\<rparr>"
  by (simp add: encryptJSON_def ALGORITHMS_AES demo_lib_def Let_def)

lemma ALGORITHMS_DES:
  "ALGORITHMS ''DES'' = Some (Profile \<lparr>cipher = ''des-ede3-cbc'', keyLen = 24, ivLen = 8\<rparr>)"
  by (simp add: ALGORITHMS_def)

lemma encryptJSON_demo_DES:
  "encryptJSON demo_lib v ''DES'' secret =
     Inr \<lparr>algo = ''DES'', iv = base64 demo_lib (replicate 8 65),
          data = base64 demo_lib (rev (map (\<lambda>c. of_nat (of_char c)) (stringify demo_lib v)))\<rparr>"
  by (simp add: encryptJSON_def ALGORITHMS_DES demo_lib_def Let_def)

subsection \<open>Bounded history\<close>

lemma sensorHistory_push_length:
  "length h \<le> 500 \<Longrightarrow> length (sensorHistory_push h e) \<le> 500"
  by (simp add: sensorHistory_push_def Let_def)

lemma sensorHistory_push_drop:
  "sensorHistory_push (drop (length es - 500) es) e = drop (length (es @ [e]) - 500) (es @ [e])"
proof (cases "length es < 500")
  case True
  then show ?thesis by (simp add: sensorHistory_push_def Let_def)
next
  case False
  then have "length es - 500 < length es" by simp
  then have "tl (drop (length es - 500) es @ [e]) = drop (Suc (length es - 500)) es @ [e]"
    by (simp add: drop_Suc tl_drop)
  moreover from False have "Suc (length es - 500) = length es - 499" by arith
  ultimately show ?thesis using False
    by (simp add: sensorHistory_push_def Let_def)
qed

lemma foldl_sensorHistory_push:
  "foldl sensorHistory_push [] es = drop (length es - 500) es"
proof (induction es rule: rev_induct)
  case Nil
  show ?case by simp
next
  case (snoc e es)
  then show ?case using sensorHistory_push_drop [of es e] by simp
qed

text \<open>
  Claim C2. Starting from the empty history, after any sequence of appends the history
  holds at most 500 envelopes, namely the last 500 appended (all of them when there were
  fewer), oldest first. After 501 appends it is the appended sequence without its first
  element: 500 envelopes, the one at position \<open>i\<close> being the one appended as number
  \<open>i + 1\<close>, and the first-appended envelope is not among them (unless an equal
  envelope was appended again later).
\<close>

theorem history_bounded_fifo:
  "length (foldl sensorHistory_push [] es) \<le> 500
   \<and> foldl sensorHistory_push [] es = drop (length es - 500) es
   \<and> (length es = 501 \<longrightarrow>
        foldl sensorHistory_push [] es = tl es
        \<and> length (foldl sensorHistory_push [] es) = 500
        \<and> (\<forall>i<500. foldl sensorHistory_push [] es ! i = es ! Suc i)
        \<and> (hd es \<notin> set (tl es) \<longrightarrow> hd es \<notin> set (foldl sensorHistory_push [] es)))"
proof -
  have eq: "foldl sensorHistory_push [] es = drop (length es - 500) es"
    by (rule foldl_sensorHistory_push)
  have "length es = 501 \<Longrightarrow> drop (length es - 500) es = tl es"
    by (simp add: drop_Suc)
  moreover have "length es = 501 \<Longrightarrow> \<forall>i<500. tl es ! i = es ! Suc i"
    by (simp add: nth_tl)
  ultimately show ?thesis unfolding eq by auto
qed

theorem history_bounded_fifo_witness:
  "length (map demo_envelope [0..<501]) = 501
   \<and> demo_envelope 0 \<notin> set (map demo_envelope [Suc 0..<501])
   \<and> foldl sensorHistory_push [] (map demo_envelope [0..<501]) = map demo_envelope [Suc 0..<501]
   \<and> length (foldl sensorHistory_push [] (map demo_envelope [0..<501])) = 500
   \<and> demo_envelope 0 \<notin> set (foldl sensorHistory_push [] (map demo_envelope [0..<501]))"
proof -
  have split: "[0..<501] = 0 # [Suc 0..<501]"
    by (rule upt_conv_Cons) simp
  have len: "length (map demo_envelope [0..<501]) = 501"
    by (simp only: length_map length_upt)
  have fresh: "demo_envelope 0 \<notin> set (map demo_envelope [Suc 0..<501])"
    by (auto simp del: upt_rec_numeral simp: demo_envelope_def)
  have hd_tl: "hd (map demo_envelope [0..<501]) = demo_envelope 0"
    "tl (map demo_envelope [0..<501]) = map demo_envelope [Suc 0..<501]"
    by (simp_all only: split list.map list.sel)
  from history_bounded_fifo [of "map demo_envelope [0..<501]"] len fresh
  show ?thesis
    unfolding hd_tl by blast
qed

subsection \<open>Key derivation\<close>

text \<open>
  Claim C3. For every secret and every registered profile, the derived key is the prefix
  of the digest of the secret of length \<open>keyLen\<close>: it is determined by the secret and
  the key length alone, so the same secret and the same key length give the same bytes, and
  its length is the profile's \<open>keyLen\<close>, 32 for AES and 24 for DES. SHA-256 is a library
  function; that its digest has 32 bytes is the hypothesis on it.
\<close>

theorem deriveKey_deterministic_length:
  assumes "\<forall>s. length (sha256 lib s) = 32"
    and "ALGORITHMS name = Some (Profile p)"
  shows "deriveKey lib secret (keyLen p) = take (keyLen p) (sha256 lib secret)
       \<and> (\<forall>secret' p'. secret' = secret \<and> keyLen p' = keyLen p \<longrightarrow>
            deriveKey lib secret' (keyLen p') = deriveKey lib secret (keyLen p))
       \<and> length (deriveKey lib secret (keyLen p)) = keyLen p
       \<and> (name = ''AES'' \<longrightarrow> keyLen p = 32)
       \<and> (name = ''DES'' \<longrightarrow> keyLen p = 24)"
  using assms by (auto simp: deriveKey_def ALGORITHMS_def split: if_splits)

theorem deriveKey_deterministic_length_witness:
  "(\<forall>s. length (sha256 demo_lib s) = 32)
   \<and> ALGORITHMS ''AES'' = Some (Profile \<lparr>cipher = ''aes-256-cbc'', keyLen = 32, ivLen = 16\<rparr>)
   \<and> ALGORITHMS ''DES'' = Some (Profile \<lparr>cipher = ''des-ede3-cbc'', keyLen = 24, ivLen = 8\<rparr>)
   \<and> length (deriveKey demo_lib ''165743'' 32) = 32
   \<and> length (deriveKey demo_lib ''165743'' 24) = 24"
proof -
  have h: "\<forall>s. length (sha256 demo_lib s) = 32"
    by (simp add: demo_lib_def min_def)
  have aes: "ALGORITHMS ''AES'' = Some (Profile \<lparr>cipher = ''aes-256-cbc'', keyLen = 32, ivLen = 16\<rparr>)"
    by (simp add: ALGORITHMS_def)
  have des: "ALGORITHMS ''DES'' = Some (Profile \<lparr>cipher = ''des-ede3-cbc'', keyLen = 24, ivLen = 8\<rparr>)"
    by (simp add: ALGORITHMS_def)
  have "length (deriveKey demo_lib ''165743''
          (keyLen \<lparr>cipher = ''aes-256-cbc'', keyLen = 32, ivLen = 16\<rparr>))
        = keyLen \<lparr>cipher = ''aes-256-cbc'', keyLen = 32, ivLen = 16\<rparr>"
    using deriveKey_deterministic_length [OF h aes] by blast
  then have k32: "length (deriveKey demo_lib ''165743'' 32) = 32" by simp
  have "length (deriveKey demo_lib ''165743''
          (keyLen \<lparr>cipher = ''des-ede3-cbc'', keyLen = 24, ivLen = 8\<rparr>))
        = keyLen \<lparr>cipher = ''des-ede3-cbc'', keyLen = 24, ivLen = 8\<rparr>"
    using deriveKey_deterministic_length [OF h des] by blast
  then have k24: "length (deriveKey demo_lib ''165743'' 24) = 24" by simp
  from h aes des k32 k24 show ?thesis by blast
qed

subsection \<open>Freshness\<close>

text \<open>
  Claim C5 as stated fails: with the maximum age explicitly overridden by 0 and the update
  period at its default of 5000, the maximum age in force is 10000, not 0, and a last
  update of age 1 is reported OK and fresh.
\<close>

theorem maxAge_override_zero_counterexample:
  "DATA_HEALTH_MAX_AGE_MS (demo_cfg\<lparr>DATA_HEALTH_MAX_AGE_MS := Some 0\<rparr>) = Some 0
   \<and> tempInterval (demo_cfg\<lparr>DATA_HEALTH_MAX_AGE_MS := Some 0\<rparr>) = 5000
   \<and> maxAge (demo_cfg\<lparr>DATA_HEALTH_MAX_AGE_MS := Some 0\<rparr>) = 10000
   \<and> device_state.lastUpdate (deviceState demo_world) = Some 0
   \<and> status (getDataHealth (demo_cfg\<lparr>DATA_HEALTH_MAX_AGE_MS := Some 0\<rparr>) 1
        (deviceState demo_world)) = OK
   \<and> isFresh (getDataHealth (demo_cfg\<lparr>DATA_HEALTH_MAX_AGE_MS := Some 0\<rparr>) 1
        (deviceState demo_world))"
  by (simp add: getDataHealth_def maxAge_def tempInterval_def or_default_def demo_cfg_def
      demo_world_simps Let_def)

text \<open>
  Claim C5, amended. With a last update at time \<open>T\<close>, the maximum age \<open>M\<close> in force and
  the clock at \<open>now\<close>, the evaluator reports the age \<open>now - T\<close>, and the verdict is OK and
  fresh when \<open>now - T \<le> M\<close>, STALE and not fresh when \<open>now - T > M\<close>. With no last
  update the verdict is UNKNOWN with no age, not fresh. The maximum age in force is the
  override when that reads as an integer other than 0, and twice the update period
  otherwise: when there is no override, and also when the override reads as 0. The update
  period is \<^verbatim>\<open>TEMP_INTERVAL\<close> when that reads as an integer other than 0, and 5000
  otherwise.
\<close>

theorem getDataHealth_verdict:
  "(device_state.lastUpdate d = None \<longrightarrow>
      getDataHealth cfg now d =
        \<lparr>status = UNKNOWN, ageMs = None, isFresh = False, health.lastUpdate = None\<rparr>)
   \<and> (\<forall>T M. device_state.lastUpdate d = Some T \<and> maxAge cfg = M \<longrightarrow>
         ageMs (getDataHealth cfg now d) = Some (now - T)
         \<and> health.lastUpdate (getDataHealth cfg now d) = Some T
         \<and> (now - T \<le> M \<longrightarrow>
               status (getDataHealth cfg now d) = OK \<and> isFresh (getDataHealth cfg now d))
         \<and> (now - T > M \<longrightarrow>
               status (getDataHealth cfg now d) = STALE \<and> \<not> isFresh (getDataHealth cfg now d)))
   \<and> maxAge cfg =
       (case DATA_HEALTH_MAX_AGE_MS cfg of
          None \<Rightarrow> 2 * tempInterval cfg
        | Some m \<Rightarrow> if m = 0 then 2 * tempInterval cfg else m)
   \<and> tempInterval cfg =
       (case TEMP_INTERVAL cfg of None \<Rightarrow> 5000 | Some n \<Rightarrow> if n = 0 then 5000 else n)"
  by (simp add: getDataHealth_def maxAge_def tempInterval_def or_default_def Let_def
      split: option.splits)

theorem getDataHealth_verdict_witness:
  "getDataHealth demo_cfg 5 ((deviceState demo_world)\<lparr>lastUpdate := None\<rparr>) =
     \<lparr>status = UNKNOWN, ageMs = None, isFresh = False, health.lastUpdate = None\<rparr>
   \<and> tempInterval (demo_cfg\<lparr>TEMP_INTERVAL := Some 3000\<rparr>) = 3000
   \<and> maxAge (demo_cfg\<lparr>TEMP_INTERVAL := Some 3000\<rparr>) = 6000
   \<and> status (getDataHealth (demo_cfg\<lparr>TEMP_INTERVAL := Some 3000\<rparr>) 6000
        (deviceState demo_world)) = OK
   \<and> isFresh (getDataHealth (demo_cfg\<lparr>TEMP_INTERVAL := Some 3000\<rparr>) 6000
        (deviceState demo_world))
   \<and> status (getDataHealth (demo_cfg\<lparr>TEMP_INTERVAL := Some 3000\<rparr>) 6001
        (deviceState demo_world)) = STALE
   \<and> \<not> isFresh (getDataHealth (demo_cfg\<lparr>TEMP_INTERVAL := Some 3000\<rparr>) 6001
        (deviceState demo_world))
   \<and> ageMs (getDataHealth (demo_cfg\<lparr>TEMP_INTERVAL := Some 3000\<rparr>) 6001
        (deviceState demo_world)) = Some 6001
   \<and> maxAge (demo_cfg\<lparr>TEMP_INTERVAL := Some 3000, DATA_HEALTH_MAX_AGE_MS := Some 250\<rparr>) = 250
   \<and> maxAge (demo_cfg\<lparr>TEMP_INTERVAL := Some 3000, DATA_HEALTH_MAX_AGE_MS := Some 0\<rparr>) = 6000
   \<and> tempInterval demo_cfg = 5000
   \<and> maxAge demo_cfg = 10000"
proof -
  let ?c = "demo_cfg\<lparr>TEMP_INTERVAL := Some 3000\<rparr>"
  let ?d = "deviceState demo_world"
  have l: "device_state.lastUpdate ?d = Some 0"
    by (simp add: demo_world_simps)
  have cfgs: "TEMP_INTERVAL ?c = Some 3000" "DATA_HEALTH_MAX_AGE_MS ?c = None"
    "TEMP_INTERVAL demo_cfg = None" "DATA_HEALTH_MAX_AGE_MS demo_cfg = None"
    by (simp_all add: demo_cfg_def)
  note a = getDataHealth_verdict [of ?d ?c 6000]
  from a cfgs have t: "tempInterval ?c = 3000" by simp
  from a cfgs t have m: "maxAge ?c = 6000" by simp
  from a l m have ok: "status (getDataHealth ?c 6000 ?d) = OK \<and> isFresh (getDataHealth ?c 6000 ?d)"
    by simp
  from getDataHealth_verdict [of ?d ?c 6001] l m
  have stale: "status (getDataHealth ?c 6001 ?d) = STALE \<and> \<not> isFresh (getDataHealth ?c 6001 ?d)
      \<and> ageMs (getDataHealth ?c 6001 ?d) = Some 6001"
    by simp
  from getDataHealth_verdict [of "?d\<lparr>lastUpdate := None\<rparr>" demo_cfg 5]
  have u: "getDataHealth demo_cfg 5 (?d\<lparr>lastUpdate := None\<rparr>) =
     \<lparr>status = UNKNOWN, ageMs = None, isFresh = False, health.lastUpdate = None\<rparr>"
    by simp
  from getDataHealth_verdict [of ?d "?c\<lparr>DATA_HEALTH_MAX_AGE_MS := Some 250\<rparr>" 0]
  have o1: "maxAge (?c\<lparr>DATA_HEALTH_MAX_AGE_MS := Some 250\<rparr>) = 250"
    by simp
  from getDataHealth_verdict [of ?d "?c\<lparr>DATA_HEALTH_MAX_AGE_MS := Some 0\<rparr>" 0]
  have o2: "maxAge (?c\<lparr>DATA_HEALTH_MAX_AGE_MS := Some 0\<rparr>) = 6000"
    by (simp add: demo_cfg_def)
  from getDataHealth_verdict [of ?d demo_cfg 0] cfgs
  have dflt: "tempInterval demo_cfg = 5000" "maxAge demo_cfg = 10000"
    by simp_all
  from u t m ok stale o1 o2 dflt show ?thesis
    by simp
qed

subsection \<open>Fan control\<close>

text \<open>
  Claim C6. While fan control is not allowed, a fan request is answered with status 403,
  \<^verbatim>\<open>Fan control is disabled\<close>, whatever the requested state is, and nothing of the process
  state changes. While it is allowed, a requested state that is none of the six recognised
  values is answered with status 400, \<^verbatim>\<open>Invalid fan state\<close>, and again nothing changes.
\<close>

theorem post_fan_rejections:
  "(\<not> allowFanControl (deviceState w) \<longrightarrow>
      post_fan now state_req w =
        (Json 403 (JObj [(''success'', JBool False),
                         (''message'', JStr ''Fan control is disabled'')]), w))
   \<and> (allowFanControl (deviceState w)
        \<and> state_req \<notin> {JStr ''ON'', JNum 1, JBool True, JStr ''OFF'', JNum 0, JBool False} \<longrightarrow>
      post_fan now state_req w =
        (Json 400 (JObj [(''success'', JBool False),
                         (''message'', JStr ''Invalid fan state'')]), w))"
  by (simp add: post_fan_def Let_def)

theorem post_fan_rejections_witness:
  "\<not> allowFanControl (deviceState (demo_world\<lparr>deviceState :=
        (deviceState demo_world)\<lparr>allowFanControl := False\<rparr>\<rparr>))
   \<and> post_fan 7 (JStr ''ON'') (demo_world\<lparr>deviceState :=
        (deviceState demo_world)\<lparr>allowFanControl := False\<rparr>\<rparr>) =
        (Json 403 (JObj [(''success'', JBool False),
                         (''message'', JStr ''Fan control is disabled'')]),
         demo_world\<lparr>deviceState := (deviceState demo_world)\<lparr>allowFanControl := False\<rparr>\<rparr>)
   \<and> allowFanControl (deviceState demo_world)
   \<and> post_fan 7 (JStr ''on'') demo_world =
        (Json 400 (JObj [(''success'', JBool False),
                         (''message'', JStr ''Invalid fan state'')]), demo_world)"
proof -
  have a: "allowFanControl (deviceState demo_world)"
    by (simp add: demo_world_def initial_world_def)
  from post_fan_rejections [of "demo_world\<lparr>deviceState :=
        (deviceState demo_world)\<lparr>allowFanControl := False\<rparr>\<rparr>" 7 "JStr ''ON''"]
       post_fan_rejections [of demo_world 7 "JStr ''on''"] a
  show ?thesis by simp
qed

subsection \<open>LED control\<close>

text \<open>
  Claim C9. An LED request whose state is none of \<^verbatim>\<open>'ON'\<close>, \<^verbatim>\<open>1\<close>, \<^verbatim>\<open>true\<close>,
  \<^verbatim>\<open>'OFF'\<close>, \<^verbatim>\<open>0\<close>, \<^verbatim>\<open>false\<close> leaves the LED as it was and signals no error:
  the answer is the success response with status 200 that reports the unchanged LED, and
  nothing is written to the error log.
\<close>

theorem post_led_lenient:
  assumes "state_req \<notin> {JStr ''ON'', JNum 1, JBool True, JStr ''OFF'', JNum 0, JBool False}"
  shows "led (deviceState (snd (post_led now state_req w))) = led (deviceState w)
       \<and> fst (post_led now state_req w) =
           Json 200 (JObj [(''success'', JBool True),
                           (''led'', JBool (led (deviceState w))),
                           (''message'',
                            JStr (''LED '' @ (if led (deviceState w) then ''ON'' else ''OFF'')))])
       \<and> console_error (snd (post_led now state_req w)) = console_error w"
  using assms by (simp add: post_led_def Let_def)

theorem post_led_lenient_witness:
  "JStr ''blink'' \<notin> {JStr ''ON'', JNum 1, JBool True, JStr ''OFF'', JNum 0, JBool False}
   \<and> led (deviceState (snd (post_led 7 (JStr ''blink'') demo_world))) = False
   \<and> fst (post_led 7 (JStr ''blink'') demo_world) =
        Json 200 (JObj [(''success'', JBool True), (''led'', JBool False),
                        (''message'', JStr ''LED OFF'')])"
proof -
  have h: "JStr ''blink'' \<notin> {JStr ''ON'', JNum 1, JBool True, JStr ''OFF'', JNum 0, JBool False}"
    by simp
  have l: "led (deviceState demo_world) = False"
    by (simp add: demo_world_def initial_world_def)
  from post_led_lenient [OF h, of 7 demo_world] h l show ?thesis by simp
qed

text \<open>
  Claim C10. Every LED request, whatever its state value, sets \<^verbatim>\<open>lastUpdate\<close> to the
  current time, broadcasts \<^verbatim>\<open>ledStateChanged\<close> with the LED value now in the state and
  the new time, and answers with status 200 and \<^verbatim>\<open>success: true\<close>. Of the device state
  only \<open>led\<close> and \<open>lastUpdate\<close> can differ afterwards, and of the process state only the
  device state and the list of broadcasts. For a state value that is not recognised the
  LED value, and so the broadcast one, is the previous one.
\<close>

theorem post_led_frame:
  "device_state.lastUpdate (deviceState (snd (post_led now state_req w))) = Some now
   \<and> emitted (snd (post_led now state_req w)) =
       emitted w @ [(''ledStateChanged'',
                     JObj [(''led'', JBool (led (deviceState (snd (post_led now state_req w))))),
                           (''timestamp'', JDate now)])]
   \<and> body_field (fst (post_led now state_req w)) ''success'' = JBool True
   \<and> status_code (fst (post_led now state_req w)) = Some 200
   \<and> deviceState (snd (post_led now state_req w)) =
       (deviceState w)\<lparr>led := led (deviceState (snd (post_led now state_req w))),
                        lastUpdate := Some now\<rparr>
   \<and> snd (post_led now state_req w) =
       w\<lparr>deviceState := deviceState (snd (post_led now state_req w)),
         emitted := emitted (snd (post_led now state_req w))\<rparr>
   \<and> (state_req \<notin> {JStr ''ON'', JNum 1, JBool True, JStr ''OFF'', JNum 0, JBool False} \<longrightarrow>
        led (deviceState (snd (post_led now state_req w))) = led (deviceState w))"
  by (simp add: post_led_def Let_def status_code_def body_field_def)

theorem post_led_frame_witness:
  "JNull \<notin> {JStr ''ON'', JNum 1, JBool True, JStr ''OFF'', JNum 0, JBool False}
   \<and> device_state.lastUpdate (deviceState (snd (post_led 7 JNull demo_world))) = Some 7
   \<and> led (deviceState (snd (post_led 7 JNull demo_world))) = False
   \<and> emitted (snd (post_led 7 JNull demo_world)) =
       [(''ledStateChanged'', JObj [(''led'', JBool False), (''timestamp'', JDate 7)])]
   \<and> status_code (fst (post_led 7 JNull demo_world)) = Some 200
   \<and> body_field (fst (post_led 7 JNull demo_world)) ''success'' = JBool True"
proof -
  have h: "JNull \<notin> {JStr ''ON'', JNum 1, JBool True, JStr ''OFF'', JNum 0, JBool False}"
    by simp
  have l: "led (deviceState demo_world) = False" "emitted demo_world = []"
    by (simp_all add: demo_world_def initial_world_def)
  note f = post_led_frame [of 7 JNull demo_world]
  from f h have same: "led (deviceState (snd (post_led 7 JNull demo_world))) =
      led (deviceState demo_world)"
    by blast
  from f have em: "emitted (snd (post_led 7 JNull demo_world)) =
       emitted demo_world @ [(''ledStateChanged'',
         JObj [(''led'', JBool (led (deviceState (snd (post_led 7 JNull demo_world))))),
               (''timestamp'', JDate 7)])]"
    by blast
  from f have rest: "device_state.lastUpdate (deviceState (snd (post_led 7 JNull demo_world))) = Some 7"
    "status_code (fst (post_led 7 JNull demo_world)) = Some 200"
    "body_field (fst (post_led 7 JNull demo_world)) ''success'' = JBool True"
    by blast+
  from em same l have em': "emitted (snd (post_led 7 JNull demo_world)) =
       [(''ledStateChanged'', JObj [(''led'', JBool False), (''timestamp'', JDate 7)])]"
    by simp
  from h same l(1) rest em' show ?thesis by simp
qed

subsection \<open>Settings\<close>

text \<open>
  Claim C1 as stated fails: a settings call that names the unknown algorithm \<^verbatim>\<open>XYZ\<close> and
  also carries \<^verbatim>\<open>allowFanControl: false\<close> is rejected with status 400, and yet
  \<open>allowFanControl\<close>, true before the call, is false after it.
\<close>

theorem post_settings_partial_counterexample:
  "ALGORITHMS (toUpperCase demo_lib ''XYZ'') = None
   \<and> status_code (fst (post_settings demo_lib demo_cfg 7 (JBool False) (JStr ''XYZ'') demo_world)) = Some 400
   \<and> allowFanControl (deviceState demo_world) = True
   \<and> allowFanControl
        (deviceState (snd (post_settings demo_lib demo_cfg 7 (JBool False) (JStr ''XYZ'') demo_world))) = False"
  by (simp add: toUpperCase_XYZ ALGORITHMS_XYZ post_settings_def status_code_def
      demo_world_def initial_world_def)

text \<open>
  Claim C1, amended. A settings call whose \<^verbatim>\<open>algo\<close> is a string that, in upper case,
  finds nothing in the registry is answered with status 400, \<^verbatim>\<open>Invalid encryption
  algorithm\<close>; the active algorithm is unchanged and nothing is broadcast. When the call has
  no \<^verbatim>\<open>allowFanControl\<close> field the whole state is unchanged; when it has one, the flag has
  been set from it (true exactly for \<^verbatim>\<open>true\<close>, \<^verbatim>\<open>'true'\<close>, \<^verbatim>\<open>1\<close>, \<^verbatim>\<open>'1'\<close>) before the
  rejection, and nothing else has changed.
\<close>

theorem post_settings_invalid_algo:
  assumes "algo_req = JStr s" and "ALGORITHMS (toUpperCase lib s) = None"
  shows "fst (post_settings lib cfg now allowFanControl_req algo_req w) =
           Json 400 (JObj [(''success'', JBool False),
                           (''message'', JStr ''Invalid encryption algorithm. Use AES or DES.'')])
       \<and> currentEncAlgo (snd (post_settings lib cfg now allowFanControl_req algo_req w)) =
           currentEncAlgo w
       \<and> emitted (snd (post_settings lib cfg now allowFanControl_req algo_req w)) = emitted w
       \<and> (allowFanControl_req = JUndefined \<longrightarrow>
            snd (post_settings lib cfg now allowFanControl_req algo_req w) = w)
       \<and> (allowFanControl_req \<noteq> JUndefined \<longrightarrow>
            snd (post_settings lib cfg now allowFanControl_req algo_req w) =
              w\<lparr>deviceState := (deviceState w)\<lparr>allowFanControl :=
                   (allowFanControl_req \<in> {JBool True, JStr ''true'', JNum 1, JStr ''1''})\<rparr>\<rparr>)"
  using assms by (simp add: post_settings_def Let_def)

theorem post_settings_invalid_algo_witness:
  "ALGORITHMS (toUpperCase demo_lib ''XYZ'') = None
   \<and> snd (post_settings demo_lib demo_cfg 7 JUndefined (JStr ''XYZ'') demo_world) = demo_world
   \<and> snd (post_settings demo_lib demo_cfg 7 (JStr ''0'') (JStr ''XYZ'') demo_world) =
        demo_world\<lparr>deviceState := (deviceState demo_world)\<lparr>allowFanControl := False\<rparr>\<rparr>
   \<and> fst (post_settings demo_lib demo_cfg 7 (JStr ''0'') (JStr ''XYZ'') demo_world) =
        Json 400 (JObj [(''success'', JBool False),
                        (''message'', JStr ''Invalid encryption algorithm. Use AES or DES.'')])"
proof -
  have h: "ALGORITHMS (toUpperCase demo_lib ''XYZ'') = None"
    by (simp add: toUpperCase_XYZ ALGORITHMS_XYZ)
  from post_settings_invalid_algo [OF refl h, of demo_cfg 7 JUndefined demo_world]
       post_settings_invalid_algo [OF refl h, of demo_cfg 7 "JStr ''0''" demo_world] h
  show ?thesis by simp
qed

text \<open>
  An upper-cased string has no lower-case letter of ASCII, and every name of an inherited
  member has one. So with a library whose upper-casing leaves no such letter, as that of
  JavaScript and that of \<open>demo_lib\<close>, the settings handler keeps the active algorithm
  among the registered profiles.
\<close>

lemma upper_char_not_lower: "\<not> is_lower (upper_char c)"
  by (cases c) (auto simp: upper_char_def is_lower_def)

lemma ascii_upper_no_lower: "c \<in> set (ascii_upper s) \<Longrightarrow> \<not> is_lower c"
  by (auto simp: ascii_upper_def upper_char_not_lower)

lemma prototype_key_has_lower: "k \<in> set object_prototype_keys \<Longrightarrow> \<exists>c\<in>set k. is_lower c"
  by (auto simp: object_prototype_keys_def is_lower_def)

lemma toUpperCase_not_inherited:
  assumes "\<And>c. c \<in> set (toUpperCase lib s) \<Longrightarrow> \<not> is_lower c"
  shows "ALGORITHMS (toUpperCase lib s) \<noteq> Some Inherited"
proof
  assume "ALGORITHMS (toUpperCase lib s) = Some Inherited"
  then have "toUpperCase lib s \<in> set object_prototype_keys"
    by (simp add: ALGORITHMS_def split: if_splits)
  from prototype_key_has_lower [OF this] assms show False
    by blast
qed

lemma post_settings_registered:
  assumes up: "\<And>s c. c \<in> set (toUpperCase lib s) \<Longrightarrow> \<not> is_lower c"
    and reg: "\<exists>a. ALGORITHMS (currentEncAlgo w) = Some (Profile a)"
  shows "\<exists>a. ALGORITHMS (currentEncAlgo (snd (post_settings lib cfg now x y w))) =
    Some (Profile a)"
proof (cases y)
  case (JStr s)
  show ?thesis
  proof (cases "ALGORITHMS (toUpperCase lib s)")
    case None
    with JStr reg show ?thesis by (simp add: post_settings_def Let_def)
  next
    case (Some m)
    with toUpperCase_not_inherited [of lib s] up obtain a where "m = Profile a"
      by (cases m) auto
    with Some JStr show ?thesis by (simp add: post_settings_def Let_def)
  qed
qed (use reg in \<open>simp_all add: post_settings_def Let_def\<close>)

lemma demo_lib_upper_no_lower: "c \<in> set (toUpperCase demo_lib s) \<Longrightarrow> \<not> is_lower c"
  by (simp add: demo_lib_def ascii_upper_no_lower)

subsection \<open>Encrypted export\<close>

text \<open>
  Claim C7 as stated fails: an encrypted export that asks for the unknown algorithm
  \<^verbatim>\<open>XYZ\<close> while AES is active does not fail; it answers with status 200 and an envelope
  made with AES.
\<close>

theorem export_unknown_name_counterexample:
  "ALGORITHMS ''XYZ'' = None
   \<and> ALGORITHMS (toUpperCase demo_lib ''XYZ'') = None
   \<and> status_code (fst (get_sensor_encrypted demo_lib demo_cfg (Some ''XYZ'') demo_world)) = Some 200
   \<and> body_field (fst (get_sensor_encrypted demo_lib demo_cfg (Some ''XYZ'') demo_world))
        ''encrypted'' = JBool True
   \<and> body_field (fst (get_sensor_encrypted demo_lib demo_cfg (Some ''XYZ'') demo_world))
        ''algo'' = JStr ''AES''"
  by (simp add: toUpperCase_XYZ ALGORITHMS_XYZ get_sensor_encrypted_def requested_algoName_def
      encrypted_reply_def encryptJSON_demo_AES demo_world_simps status_code_def body_field_def)

lemma requested_algoName_fallback:
  "ALGORITHMS q = None \<Longrightarrow> requested_algoName (Some q) w = requested_algoName None w"
  by (simp add: requested_algoName_def)

text \<open>
  Claim C7, amended. In an encrypted export a requested name that is exactly \<^verbatim>\<open>AES\<close> or
  \<^verbatim>\<open>DES\<close> is the algorithm used. A requested name that finds nothing in the registry,
  neither as sent nor in upper case, is not an error: the export is the one of the same
  request without a name, made with the active algorithm. The name handed to the encryptor
  always resolves when the active algorithm does, and when the encryptor returns an
  envelope the answer has status 200 and carries that name and the envelope. The encryptor
  by itself does fail, with \<^verbatim>\<open>Unsupported algorithm\<close>, on a name that finds nothing.
\<close>

theorem export_algo_selection:
  "(q \<in> {''AES'', ''DES''} \<longrightarrow> requested_algoName (Some q) w = q)
   \<and> (ALGORITHMS q = None \<and> ALGORITHMS (toUpperCase lib q) = None \<longrightarrow>
        requested_algoName (Some q) w = currentEncAlgo w
        \<and> get_sensor_encrypted lib cfg (Some q) w = get_sensor_encrypted lib cfg None w
        \<and> get_humidity_encrypted lib cfg (Some q) w = get_humidity_encrypted lib cfg None w)
   \<and> (ALGORITHMS (currentEncAlgo w) \<noteq> None \<longrightarrow>
        ALGORITHMS (requested_algoName query_algo w) \<noteq> None)
   \<and> (\<forall>e. encryptJSON lib v (requested_algoName query_algo w) (DATA_SECRET cfg) = Inr e \<longrightarrow>
        fst (encrypted_reply lib cfg route v (requested_algoName query_algo w) w) =
          Json 200 (JObj [(''encrypted'', JBool True),
                          (''algo'', JStr (requested_algoName query_algo w)),
                          (''iv'', JStr (iv e)), (''data'', JStr (data e))]))
   \<and> (ALGORITHMS n = None \<longrightarrow>
        encryptJSON lib v n secret = Inl (Error (''Unsupported algorithm: '' @ n)))"
proof -
  have a: "q \<in> {''AES'', ''DES''} \<longrightarrow> requested_algoName (Some q) w = q"
    by (auto simp: requested_algoName_def ALGORITHMS_def)
  have b: "ALGORITHMS q = None \<longrightarrow>
        requested_algoName (Some q) w = currentEncAlgo w
        \<and> get_sensor_encrypted lib cfg (Some q) w = get_sensor_encrypted lib cfg None w
        \<and> get_humidity_encrypted lib cfg (Some q) w = get_humidity_encrypted lib cfg None w"
    by (simp add: requested_algoName_def get_sensor_encrypted_def get_humidity_encrypted_def)
  have c: "ALGORITHMS (currentEncAlgo w) \<noteq> None \<longrightarrow>
        ALGORITHMS (requested_algoName query_algo w) \<noteq> None"
    by (simp add: requested_algoName_def split: option.splits)
  have d: "\<forall>e. encryptJSON lib v (requested_algoName query_algo w) (DATA_SECRET cfg) = Inr e \<longrightarrow>
        fst (encrypted_reply lib cfg route v (requested_algoName query_algo w) w) =
          Json 200 (JObj [(''encrypted'', JBool True),
                          (''algo'', JStr (requested_algoName query_algo w)),
                          (''iv'', JStr (iv e)), (''data'', JStr (data e))])"
    by (auto simp: encrypted_reply_def encryptJSON_def Let_def
        split: option.splits member.splits sum.splits)
  have e: "ALGORITHMS n = None \<longrightarrow>
        encryptJSON lib v n secret = Inl (Error (''Unsupported algorithm: '' @ n))"
    by (simp add: encryptJSON_def)
  from a b c d e show ?thesis by blast
qed


theorem export_algo_selection_witness:
  "encryptJSON demo_lib JNull ''XYZ'' ''165743'' = Inl (Error ''Unsupported algorithm: XYZ'')
   \<and> requested_algoName (Some ''DES'') demo_world = ''DES''
   \<and> ALGORITHMS ''XYZ'' = None \<and> ALGORITHMS (toUpperCase demo_lib ''XYZ'') = None
   \<and> requested_algoName (Some ''XYZ'') demo_world = ''AES''
   \<and> get_sensor_encrypted demo_lib demo_cfg (Some ''XYZ'') demo_world =
       get_sensor_encrypted demo_lib demo_cfg None demo_world
   \<and> ALGORITHMS (requested_algoName (Some ''XYZ'') demo_world) \<noteq> None
   \<and> fst (encrypted_reply demo_lib demo_cfg ''/sensor_encrypted'' JNull
            (requested_algoName (Some ''DES'') demo_world) demo_world) =
       Json 200 (JObj [(''encrypted'', JBool True), (''algo'', JStr ''DES''),
                       (''iv'', JStr (base64 demo_lib (replicate 8 65))),
                       (''data'', JStr (base64 demo_lib
                          (rev (map (\<lambda>c. of_nat (of_char c)) (stringify demo_lib JNull)))))])"
proof -
  have x: "ALGORITHMS ''XYZ'' = None" "ALGORITHMS (toUpperCase demo_lib ''XYZ'') = None"
    by (simp_all add: toUpperCase_XYZ ALGORITHMS_XYZ)
  have cur: "ALGORITHMS (currentEncAlgo demo_world) \<noteq> None"
    by (simp add: demo_world_simps ALGORITHMS_AES)
  note des = export_algo_selection [where q = "''DES''" and w = demo_world and lib = demo_lib
      and cfg = demo_cfg and query_algo = "Some ''DES''" and v = JNull
      and route = "''/sensor_encrypted''" and n = "''XYZ''" and secret = "''165743''"]
  note xyz = export_algo_selection [where q = "''XYZ''" and w = demo_world and lib = demo_lib
      and cfg = demo_cfg and query_algo = "Some ''XYZ''" and v = JNull
      and route = "''/sensor_encrypted''" and n = "''XYZ''" and secret = "''165743''"]
  from xyz x(1) have unsup:
    "encryptJSON demo_lib JNull ''XYZ'' ''165743'' = Inl (Error (''Unsupported algorithm: '' @ ''XYZ''))"
    by blast
  from des have r_des: "requested_algoName (Some ''DES'') demo_world = ''DES''"
    by simp
  from xyz x have r_xyz: "requested_algoName (Some ''XYZ'') demo_world = currentEncAlgo demo_world"
    "get_sensor_encrypted demo_lib demo_cfg (Some ''XYZ'') demo_world =
       get_sensor_encrypted demo_lib demo_cfg None demo_world"
    by blast+
  from xyz cur have reg: "ALGORITHMS (requested_algoName (Some ''XYZ'') demo_world) \<noteq> None"
    by blast
  have enc: "encryptJSON demo_lib JNull (requested_algoName (Some ''DES'') demo_world)
       (DATA_SECRET demo_cfg) =
     Inr \<lparr>algo = ''DES'', iv = base64 demo_lib (replicate 8 65),
          data = base64 demo_lib (rev (map (\<lambda>c. of_nat (of_char c)) (stringify demo_lib JNull)))\<rparr>"
    by (simp only: r_des encryptJSON_demo_DES)
  from des have "\<forall>e. encryptJSON demo_lib JNull (requested_algoName (Some ''DES'') demo_world)
         (DATA_SECRET demo_cfg) = Inr e \<longrightarrow>
       fst (encrypted_reply demo_lib demo_cfg ''/sensor_encrypted'' JNull
            (requested_algoName (Some ''DES'') demo_world) demo_world) =
       Json 200 (JObj [(''encrypted'', JBool True),
                       (''algo'', JStr (requested_algoName (Some ''DES'') demo_world)),
                       (''iv'', JStr (iv e)), (''data'', JStr (data e))])"
    by blast
  from this [rule_format, OF enc]
  have reply: "fst (encrypted_reply demo_lib demo_cfg ''/sensor_encrypted'' JNull
            (requested_algoName (Some ''DES'') demo_world) demo_world) =
       Json 200 (JObj [(''encrypted'', JBool True),
                       (''algo'', JStr (requested_algoName (Some ''DES'') demo_world)),
                       (''iv'', JStr (base64 demo_lib (replicate 8 65))),
                       (''data'', JStr (base64 demo_lib
                          (rev (map (\<lambda>c. of_nat (of_char c)) (stringify demo_lib JNull)))))])"
    by simp
  from unsup r_des x r_xyz reg reply show ?thesis
    by (simp add: demo_world_simps)
qed

subsection \<open>Update cycle\<close>

lemma sendToMainServer_outcome:
  "fst (sendToMainServer lib cfg w) = fst (sendToMainServer lib cfg w')"
  by (simp add: sendToMainServer_def Let_def split: option.splits sum.splits)

lemma sendToMainServer_disabled:
  "\<not> SEND_TO_MAIN_SERVER cfg \<Longrightarrow> sendToMainServer lib cfg w = (None, w)"
  by (simp add: sendToMainServer_def split: option.splits)

lemma sendToMainServer_state:
  "deviceState (snd (sendToMainServer lib cfg w)) = deviceState w"
  "currentEncAlgo (snd (sendToMainServer lib cfg w)) = currentEncAlgo w"
  "sensorHistory (snd (sendToMainServer lib cfg w)) = sensorHistory w"
  "emitted (snd (sendToMainServer lib cfg w)) = emitted w"
  "console_error (snd (sendToMainServer lib cfg w)) = console_error w"
  by (simp_all add: sendToMainServer_def Let_def split: option.splits sum.splits)










subsection \<open>Round trip\<close>






subsection \<open>The history across ticks and requests\<close>

text \<open>
  A tick changes the history by one bounded push, when the encryption succeeds, and not at
  all otherwise; no request handler touches it. So the bound of 500 holds along the whole
  schedule.
\<close>

lemma updateSensorData_history:
  "sensorHistory (snd (updateSensorData lib cfg temp hum now now_health w)) =
     (case encryptJSON lib
             (history_record lib now
                ((deviceState w)\<lparr>temperature := temp,
                                  humidity := hum,
                                  lastUpdate := Some now\<rparr>))
             (currentEncAlgo w) (DATA_SECRET cfg) of
        Inr payload \<Rightarrow> sensorHistory_push (sensorHistory w) payload
      | Inl err \<Rightarrow> sensorHistory w)"
  by (simp add: updateSensorData_def Let_def sendToMainServer_state split: sum.splits)

lemma updateSensorData_history_bound:
  "length (sensorHistory w) \<le> 500 \<Longrightarrow>
   length (sensorHistory (snd (updateSensorData lib cfg temp hum now now_health w))) \<le> 500"
  by (simp add: updateSensorData_history sensorHistory_push_length split: sum.splits)

lemma handlers_keep_history:
  "sensorHistory (snd (post_led now state_req w)) = sensorHistory w"
  "sensorHistory (snd (post_fan now state_req w)) = sensorHistory w"
  "sensorHistory (snd (post_settings lib cfg now x y w)) = sensorHistory w"
  "sensorHistory (snd (get_sensor_encrypted lib cfg q w)) = sensorHistory w"
  "sensorHistory (snd (get_humidity_encrypted lib cfg q w)) = sensorHistory w"
  by (auto simp: post_led_def post_fan_def post_settings_def get_sensor_encrypted_def
      get_humidity_encrypted_def encrypted_reply_def Let_def
      split: option.splits sum.splits jsval.splits)

lemma run_ticks_history_bound:
  "length (sensorHistory w) \<le> 500 \<Longrightarrow> length (sensorHistory (snd (run_ticks cfg ts w))) \<le> 500"
proof (induction ts arbitrary: w)
  case Nil
  then show ?case by simp
next
  case (Cons t ts)
  let ?r = "updateSensorData (tick_lib t) cfg (tick_temperature t) (tick_humidity t)
             (tick_now t) (tick_now_health t) w"
  from Cons.prems have b: "length (sensorHistory (snd ?r)) \<le> 500"
    by (rule updateSensorData_history_bound)
  show ?case
  proof (cases "fst ?r")
    case None
    then have "run_ticks cfg (t # ts) w = run_ticks cfg ts (snd ?r)"
      by (cases ?r) simp
    with Cons.IH [OF b] show ?thesis by simp
  next
    case (Some e)
    then have "run_ticks cfg (t # ts) w = ?r"
      by (cases ?r) simp
    with b show ?thesis by simp
  qed
qed


end
